theory Spec2Isabelle
  imports Complex_Main
begin

section \<open>Python values and the operations the client applies to them\<close>

text \<open>
  The backend answers in JSON, and \<open>response.json()\<close> turns the answer into Python
  values: \<open>None\<close>, \<open>bool\<close>, \<open>int\<close>, \<open>float\<close>, \<open>str\<close>, \<open>list\<close> and \<open>dict\<close> (with string
  keys, in insertion order; the association list of a dict has no key twice). Floats are
  idealised as exact rationals, so \<open>0.1 * 1000\<close> is \<open>100\<close>; NaN, infinities and rounding
  are not modelled.
\<close>

datatype json =
    JNull
  | JBool bool
  | JInt int
  | JFloat rat
  | JStr string
  | JList "json list"
  | JObj "(string \<times> json) list"

type_synonym dict = "(string \<times> json) list"

text \<open>The exceptions an ill-shaped value can raise inside a normalizer.\<close>

datatype py_exc = TypeError | IndexError | KeyError

definition and_then :: "py_exc + 'a \<Rightarrow> ('a \<Rightarrow> py_exc + 'b) \<Rightarrow> py_exc + 'b" where
  "and_then m f = (case m of Inl e \<Rightarrow> Inl e | Inr x \<Rightarrow> f x)"

text \<open>Truth value of a Python object, as \<open>if x\<close> and \<open>not x\<close> test it.\<close>

fun truthy :: "json \<Rightarrow> bool" where
  "truthy JNull = False"
| "truthy (JBool b) = b"
| "truthy (JInt i) = (i \<noteq> 0)"
| "truthy (JFloat f) = (f \<noteq> 0)"
| "truthy (JStr s) = (s \<noteq> [])"
| "truthy (JList xs) = (xs \<noteq> [])"
| "truthy (JObj kvs) = (kvs \<noteq> [])"

text \<open>
  \<open>x[i]\<close> for a literal index \<open>i \<ge> 0\<close>: a list or a string is indexed (IndexError out of
  range), a dict parsed from JSON has string keys only, so an integer key is a KeyError,
  and every other value is not subscriptable.
\<close>

fun py_getitem :: "json \<Rightarrow> nat \<Rightarrow> py_exc + json" where
  "py_getitem (JList xs) i = (if i < length xs then Inr (xs ! i) else Inl IndexError)"
| "py_getitem (JStr s) i = (if i < length s then Inr (JStr [s ! i]) else Inl IndexError)"
| "py_getitem (JObj kvs) i = Inl KeyError"
| "py_getitem v i = Inl TypeError"

fun py_len :: "json \<Rightarrow> py_exc + nat" where
  "py_len (JList xs) = Inr (length xs)"
| "py_len (JStr s) = Inr (length s)"
| "py_len (JObj kvs) = Inr (length kvs)"
| "py_len v = Inl TypeError"

text \<open>
  \<open>x * 1000\<close>: numbers are multiplied (\<open>True\<close> and \<open>False\<close> count as 1 and 0), strings and
  lists are repeated, \<open>None\<close> and dicts raise TypeError.
\<close>

fun mul1000 :: "json \<Rightarrow> py_exc + json" where
  "mul1000 (JInt i) = Inr (JInt (i * 1000))"
| "mul1000 (JBool b) = Inr (JInt (if b then 1000 else 0))"
| "mul1000 (JFloat f) = Inr (JFloat (f * 1000))"
| "mul1000 (JStr s) = Inr (JStr (concat (replicate 1000 s)))"
| "mul1000 (JList xs) = Inr (JList (concat (replicate 1000 xs)))"
| "mul1000 v = Inl TypeError"

text \<open>\<open>x == 1\<close>: true for the int 1, the float 1.0 and \<open>True\<close>.\<close>

definition eq_one :: "json \<Rightarrow> bool" where
  "eq_one v = (v = JInt 1 \<or> v = JFloat 1 \<or> v = JBool True)"

text \<open>
  \<open>sum(rtts)\<close> starts from the int 0 and adds every element: a string or a list among them
  raises TypeError.
\<close>

fun py_sum :: "json list \<Rightarrow> py_exc + rat" where
  "py_sum [] = Inr 0"
| "py_sum (JInt i # xs) = and_then (py_sum xs) (\<lambda>s. Inr (of_int i + s))"
| "py_sum (JFloat f # xs) = and_then (py_sum xs) (\<lambda>s. Inr (f + s))"
| "py_sum (JBool b # xs) = and_then (py_sum xs) (\<lambda>s. Inr ((if b then 1 else 0) + s))"
| "py_sum (v # xs) = Inl TypeError"

text \<open>
  The numeric value of a number. \<open>min\<close> and \<open>max\<close> are reached only after \<open>sum(rtts)\<close> has
  succeeded, when every element is an int or a float.
\<close>

fun num_val :: "json \<Rightarrow> rat" where
  "num_val (JInt i) = of_int i"
| "num_val (JFloat f) = f"
| "num_val (JBool b) = (if b then 1 else 0)"
| "num_val v = 0"

text \<open>\<open>min\<close> and \<open>max\<close> keep the first of several equal extremes.\<close>

definition py_min :: "json \<Rightarrow> json list \<Rightarrow> json" where
  "py_min x xs = foldl (\<lambda>best y. if num_val y < num_val best then y else best) x xs"

definition py_max :: "json \<Rightarrow> json list \<Rightarrow> json" where
  "py_max x xs = foldl (\<lambda>best y. if num_val best < num_val y then y else best) x xs"

text \<open>\<open>d[k] = v\<close> on an insertion-ordered dict: an existing key keeps its place.\<close>

fun dict_set :: "dict \<Rightarrow> string \<Rightarrow> json \<Rightarrow> dict" where
  "dict_set [] k v = [(k, v)]"
| "dict_set ((k', v') # d) k v =
     (if k' = k then (k, v) # d else (k', v') # dict_set d k v)"

section \<open>Configuration and the vantage-point table\<close>

definition MAX_RETRIES :: nat where "MAX_RETRIES = 3"
definition RESULT_WAIT_TIME :: nat where "RESULT_WAIT_TIME = 10"
definition MAX_WAIT_TIME :: nat where "MAX_WAIT_TIME = 30"

record node_info =
  country :: string
  city :: string
  continent :: string

definition nd :: "string \<Rightarrow> string \<Rightarrow> string \<Rightarrow> string \<Rightarrow> string \<times> node_info" where
  "nd ident co ci cont = (ident @ ''.node.check-host.net'',
     \<lparr>country = co, city = ci, continent = cont\<rparr>)"

definition NODE_DETAILS :: "(string \<times> node_info) list" where
  "NODE_DETAILS = [
    nd ''bg1'' ''Bulgaria'' ''Sofia'' ''EU'',
    nd ''br1'' ''Brazil'' ''Sao Paulo'' ''SA'',
    nd ''ch1'' ''Switzerland'' ''Zurich'' ''EU'',
    nd ''cz1'' ''Czechia'' ''C.Budejovice'' ''EU'',
    nd ''de1'' ''Germany'' ''Nuremberg'' ''EU'',
    nd ''de4'' ''Germany'' ''Frankfurt'' ''EU'',
    nd ''es1'' ''Spain'' ''Barcelona'' ''EU'',
    nd ''fi1'' ''Finland'' ''Helsinki'' ''EU'',
    nd ''fr1'' ''France'' ''Roubaix'' ''EU'',
    nd ''fr2'' ''France'' ''Paris'' ''EU'',
    nd ''hk1'' ''Hong Kong'' ''Hong Kong'' ''AS'',
    nd ''hu1'' ''Hungary'' ''Nyiregyhaza'' ''EU'',
    nd ''il1'' ''Israel'' ''Tel Aviv'' ''AS'',
    nd ''il2'' ''Israel'' ''Netanya'' ''AS'',
    nd ''in1'' ''India'' ''Mumbai'' ''AS'',
    nd ''in2'' ''India'' ''Chennai'' ''AS'',
    nd ''ir1'' ''Iran'' ''Tehran'' ''AS'',
    nd ''ir3'' ''Iran'' ''Mashhad'' ''AS'',
    nd ''ir5'' ''Iran'' ''Esfahan'' ''AS'',
    nd ''ir6'' ''Iran'' ''Karaj'' ''AS'',
    nd ''it2'' ''Italy'' ''Milan'' ''EU'',
    nd ''jp1'' ''Japan'' ''Tokyo'' ''AS'',
    nd ''kz1'' ''Kazakhstan'' ''Karaganda'' ''AS'',
    nd ''lt1'' ''Lithuania'' ''Vilnius'' ''EU'',
    nd ''md1'' ''Moldova'' ''Chisinau'' ''EU'',
    nd ''nl1'' ''Netherlands'' ''Amsterdam'' ''EU'',
    nd ''nl2'' ''Netherlands'' ''Meppel'' ''EU'',
    nd ''pl1'' ''Poland'' ''Poznan'' ''EU'',
    nd ''pl2'' ''Poland'' ''Warsaw'' ''EU'',
    nd ''pt1'' ''Portugal'' ''Viana'' ''EU'',
    nd ''rs1'' ''Serbia'' ''Belgrade'' ''EU'',
    nd ''ru1'' ''Russia'' ''Moscow'' ''EU-EAST'',
    nd ''ru2'' ''Russia'' ''Moscow'' ''EU-EAST'',
    nd ''ru3'' ''Russia'' ''Saint Petersburg'' ''EU-EAST'',
    nd ''ru4'' ''Russia'' ''Ekaterinburg'' ''EU-EAST'',
    nd ''se1'' ''Sweden'' ''Tallberg'' ''EU'',
    nd ''tr1'' ''Turkey'' ''Istanbul'' ''AS'',
    nd ''tr2'' ''Turkey'' ''Gebze'' ''AS'',
    nd ''ua1'' ''Ukraine'' ''Khmelnytskyi'' ''EU-EAST'',
    nd ''ua2'' ''Ukraine'' ''Kyiv'' ''EU-EAST'',
    nd ''ua3'' ''Ukraine'' ''SpaceX Starlink'' ''EU-EAST'',
    nd ''uk1'' ''UK'' ''Coventry'' ''EU'',
    nd ''us1'' ''USA'' ''Los Angeles'' ''NA'',
    nd ''us2'' ''USA'' ''Dallas'' ''NA'',
    nd ''us3'' ''USA'' ''Atlanta'' ''NA'',
    nd ''vn1'' ''Vietnam'' ''Ho Chi Minh City'' ''AS'']"

text \<open>The display label \<open>f"{country} ({city})"\<close>.\<close>

definition region :: "node_info \<Rightarrow> string" where
  "region d = country d @ '' ('' @ city d @ '')''"

section \<open>The result normalizers of \<open>NetworkTester\<close>\<close>

text \<open>The record \<open>{'success': False, 'error': msg}\<close> of a node without usable data.\<close>

abbreviation failed :: "string \<Rightarrow> json" where
  "failed msg \<equiv> JObj [(''success'', JBool False), (''error'', JStr msg)]"

text \<open>\<open>sum(1 for r in ping_result if r[0] == "OK")\<close>\<close>

fun count_ok :: "json list \<Rightarrow> py_exc + nat" where
  "count_ok [] = Inr 0"
| "count_ok (r # rs) =
     (case py_getitem r 0 of
        Inl e \<Rightarrow> Inl e
      | Inr s \<Rightarrow> (case count_ok rs of
                   Inl e \<Rightarrow> Inl e
                 | Inr n \<Rightarrow> Inr (if s = JStr ''OK'' then Suc n else n)))"

text \<open>\<open>[r[1] * 1000 for r in ping_result if r[0] == "OK"]\<close>\<close>

fun ok_rtts :: "json list \<Rightarrow> py_exc + json list" where
  "ok_rtts [] = Inr []"
| "ok_rtts (r # rs) =
     (case py_getitem r 0 of
        Inl e \<Rightarrow> Inl e
      | Inr s \<Rightarrow>
          if s = JStr ''OK'' then
            (case and_then (py_getitem r 1) mul1000 of
               Inl e \<Rightarrow> Inl e
             | Inr t \<Rightarrow> (case ok_rtts rs of Inl e \<Rightarrow> Inl e | Inr ts \<Rightarrow> Inr (t # ts)))
          else ok_rtts rs)"

text \<open>
  The body of the branch for a list \<open>ping_result\<close> of more than one attempt, in the order
  in which Python evaluates it.
\<close>

definition ping_stats :: "json list \<Rightarrow> py_exc + json" where
  "ping_stats ping_result =
     and_then (count_ok ping_result) (\<lambda>successful.
     let total = length ping_result in
     and_then (ok_rtts ping_result) (\<lambda>rtts.
     and_then (if rtts \<noteq> [] then
                 and_then (py_sum rtts) (\<lambda>s. Inr (JFloat (s / of_nat (length rtts))))
               else Inr (JInt 0)) (\<lambda>avg.
     and_then (py_len (ping_result ! 0)) (\<lambda>n.
     and_then (if n > 2 then py_getitem (ping_result ! 0) 2 else Inr JNull) (\<lambda>ip.
     Inr (JObj [
       (''success'', JBool (successful > 0)),
       (''avg_latency'', avg),
       (''min_latency'', if rtts \<noteq> [] then py_min (hd rtts) (tl rtts) else JInt 0),
       (''max_latency'', if rtts \<noteq> [] then py_max (hd rtts) (tl rtts) else JInt 0),
       (''packet_loss'',
          if total > 0
          then JFloat ((of_nat total - of_nat successful) / of_nat total * 100)
          else JInt 100),
       (''ip'', ip)]))))))"

definition ping_node :: "json \<Rightarrow> py_exc + json" where
  "ping_node node_result =
     (case node_result of
        JList (ping_result # _) \<Rightarrow>
          (case ping_result of
             JList attempts \<Rightarrow>
               if length attempts > 1 then ping_stats attempts
               else Inr (failed ''Invalid ping response'')
           | _ \<Rightarrow> Inr (failed ''Invalid ping response''))
      | _ \<Rightarrow> Inr (failed ''No ping data''))"

definition http_node :: "json \<Rightarrow> py_exc + json" where
  "http_node node_result =
     (case node_result of
        JList (http_result # _) \<Rightarrow>
          (case http_result of
             JList fs \<Rightarrow>
               if length fs > 3 then
                 (let success = eq_one (fs ! 0) in
                  and_then (mul1000 (fs ! 1)) (\<lambda>response_time.
                  let status_msg = fs ! 2;
                      status_code = fs ! 3;
                      ip = (if length fs > 4 then fs ! 4 else JNull)
                  in Inr (JObj [
                       (''success'', JBool success),
                       (''status_code'', status_code),
                       (''status_msg'', status_msg),
                       (''response_time'', response_time),
                       (''ip'', ip)])))
               else Inr (failed ''Invalid HTTP response'')
           | _ \<Rightarrow> Inr (failed ''Invalid HTTP response''))
      | _ \<Rightarrow> Inr (failed ''No HTTP data''))"

definition tcp_node :: "json \<Rightarrow> py_exc + json" where
  "tcp_node node_result =
     (case node_result of
        JList (tcp_result # _) \<Rightarrow>
          (case tcp_result of
             JList fs \<Rightarrow>
               if length fs > 1 then
                 (let success = eq_one (fs ! 0) in
                  and_then (mul1000 (fs ! 1)) (\<lambda>connect_time.
                  let ip = (if length fs > 2 then fs ! 2 else JNull)
                  in Inr (JObj [
                       (''success'', JBool success),
                       (''connect_time'', connect_time),
                       (''ip'', ip)])))
               else Inr (failed ''Invalid TCP response'')
           | _ \<Rightarrow> Inr (failed ''Invalid TCP response''))
      | _ \<Rightarrow> Inr (failed ''No TCP data''))"

definition udp_node :: "json \<Rightarrow> py_exc + json" where
  "udp_node node_result =
     (case node_result of
        JList (udp_result # _) \<Rightarrow>
          (case udp_result of
             JList fs \<Rightarrow>
               if length fs > 1 then
                 (let success = eq_one (fs ! 0) in
                  and_then (mul1000 (fs ! 1)) (\<lambda>response_time.
                  let ip = (if length fs > 2 then fs ! 2 else JNull)
                  in Inr (JObj [
                       (''success'', JBool success),
                       (''response_time'', response_time),
                       (''ip'', ip)])))
               else Inr (failed ''Invalid UDP response'')
           | _ \<Rightarrow> Inr (failed ''Invalid UDP response''))
      | _ \<Rightarrow> Inr (failed ''No UDP data''))"

text \<open>\<open>[record[1] for record in dns_result if len(record) > 1]\<close>\<close>

fun dns_addresses :: "json list \<Rightarrow> py_exc + json list" where
  "dns_addresses [] = Inr []"
| "dns_addresses (r # rs) =
     (case py_len r of
        Inl e \<Rightarrow> Inl e
      | Inr n \<Rightarrow>
          if n > 1 then
            (case py_getitem r 1 of
               Inl e \<Rightarrow> Inl e
             | Inr a \<Rightarrow> (case dns_addresses rs of Inl e \<Rightarrow> Inl e | Inr as \<Rightarrow> Inr (a # as)))
          else dns_addresses rs)"

definition dns_node :: "json \<Rightarrow> py_exc + json" where
  "dns_node node_result =
     (case node_result of
        JList (dns_result # _) \<Rightarrow>
          (case dns_result of
             JList recs \<Rightarrow>
               if length recs > 0 then
                 and_then (dns_addresses recs) (\<lambda>addresses.
                 and_then (py_getitem (recs ! 0) 0) (\<lambda>t.
                 and_then (if truthy t then mul1000 t else Inr (JInt 0)) (\<lambda>resolution_time.
                 Inr (JObj [
                   (''success'', JBool True),
                   (''resolution_time'', resolution_time),
                   (''addresses'', JList addresses)]))))
               else Inr (failed ''Invalid DNS response'')
           | _ \<Rightarrow> Inr (failed ''Invalid DNS response''))
      | _ \<Rightarrow> Inr (failed ''No DNS data''))"

text \<open>
  The loop \<open>for node, node_result in api_result.items()\<close> shared by the five normalizers:
  a node that is not in \<open>NODE_DETAILS\<close> is skipped, a known one stores its record under its
  label, and an exception raised for one node leaves the whole call.
\<close>

fun normalize_nodes :: "(json \<Rightarrow> py_exc + json) \<Rightarrow> dict \<Rightarrow> dict \<Rightarrow> py_exc + dict" where
  "normalize_nodes f [] results = Inr results"
| "normalize_nodes f ((node, node_result) # rest) results =
     (case map_of NODE_DETAILS node of
        None \<Rightarrow> normalize_nodes f rest results
      | Some d \<Rightarrow>
          (case f node_result of
             Inl e \<Rightarrow> Inl e
           | Inr r \<Rightarrow> normalize_nodes f rest (dict_set results (region d) r)))"

text \<open>
  Each normalizer is given \<open>api_result\<close>, the dict that the matching \<open>check_*\<close> call of
  \<open>CheckHostAPI\<close> returned.
\<close>

definition normalize_payload :: "(json \<Rightarrow> py_exc + json) \<Rightarrow> dict \<Rightarrow> py_exc + dict" where
  "normalize_payload f api_result =
     (case map_of api_result ''error'' of
        Some err \<Rightarrow> Inr [(''error'', err)]
      | None \<Rightarrow> normalize_nodes f api_result [])"

definition ping :: "dict \<Rightarrow> py_exc + dict" where
  "ping api_result = normalize_payload ping_node api_result"

definition http_check :: "dict \<Rightarrow> py_exc + dict" where
  "http_check api_result = normalize_payload http_node api_result"

definition tcp_check :: "dict \<Rightarrow> py_exc + dict" where
  "tcp_check api_result = normalize_payload tcp_node api_result"

definition udp_check :: "dict \<Rightarrow> py_exc + dict" where
  "udp_check api_result = normalize_payload udp_node api_result"

definition dns_check :: "dict \<Rightarrow> py_exc + dict" where
  "dns_check api_result = normalize_payload dns_node api_result"

section \<open>The job client \<open>CheckHostAPI\<close>\<close>

text \<open>
  The network and the clock are inputs of the model. Every submission request ends in one
  of two ways: the transport raises a \<open>RequestException\<close> (with its text \<open>str(e)\<close>), or a
  response arrives, of which the client reads \<open>response.json().get('request_id')\<close>
  (\<open>None\<close> when the field is missing). Every result request either raises or delivers the
  payload. What the client does to the outside is recorded as a list of actions.
\<close>

datatype check_type = Ping | Http | Tcp | Udp | Dns

datatype submit_outcome = SubmitFailed string | SubmitReplied json

datatype poll_outcome = PollFailed string | PollReplied dict

datatype action = GetCheck check_type | GetResult json | Sleep nat

definition error_dict :: "string \<Rightarrow> dict" where
  "error_dict msg = [(''error'', JStr msg)]"

definition after :: "action list \<Rightarrow> ('a \<times> action list) option \<Rightarrow> ('a \<times> action list) option" where
  "after acts r = map_option (\<lambda>(v, t). (v, acts @ t)) r"

text \<open>\<open>all(v is not None for v in result_data.values())\<close>\<close>

definition all_responded :: "dict \<Rightarrow> bool" where
  "all_responded result_data = list_all (\<lambda>(k, v). v \<noteq> JNull) result_data"

text \<open>
  \<open>_get_check_results\<close>. Each round sleeps \<open>RESULT_WAIT_TIME\<close> seconds and sends one
  request; \<open>took\<close> is the time the round needed beyond the sleep, so that afterwards
  \<open>time.time() - start_time\<close> is \<open>elapsed + RESULT_WAIT_TIME + took\<close>. The rounds are taken
  from a list; \<open>None\<close> says that the list ended before the loop did.
\<close>

fun get_check_results ::
  "json \<Rightarrow> rat \<Rightarrow> (rat \<times> poll_outcome) list \<Rightarrow> (dict \<times> action list) option" where
  "get_check_results check_id elapsed [] =
     (if elapsed < of_nat MAX_WAIT_TIME then None
      else Some (error_dict ''Timeout waiting for all nodes to respond'', []))"
| "get_check_results check_id elapsed ((took, outcome) # rounds) =
     (if elapsed < of_nat MAX_WAIT_TIME then
        (let now = elapsed + of_nat RESULT_WAIT_TIME + took;
             acts = [Sleep RESULT_WAIT_TIME, GetResult check_id]
         in case outcome of
              PollReplied result_data \<Rightarrow>
                if all_responded result_data then Some (result_data, acts)
                else after acts (get_check_results check_id now rounds)
            | PollFailed e \<Rightarrow>
                if now \<ge> of_nat MAX_WAIT_TIME
                then Some (error_dict (''Timeout waiting for results: '' @ e), acts)
                else after acts (get_check_results check_id now rounds))
      else Some (error_dict ''Timeout waiting for all nodes to respond'', []))"

text \<open>
  The five methods \<open>check_ping\<close>, \<open>check_http\<close>, \<open>check_tcp\<close>, \<open>check_udp\<close> and
  \<open>check_dns\<close> differ in the endpoint only, which the action \<open>GetCheck\<close> records. The
  function is the loop \<open>for attempt in range(MAX_RETRIES)\<close> from a given \<open>attempt\<close> on; a
  loop that ends without \<open>return\<close> returns \<open>None\<close>.
\<close>

fun check_from ::
  "check_type \<Rightarrow> nat \<Rightarrow> submit_outcome list \<Rightarrow> (rat \<times> poll_outcome) list \<Rightarrow>
     (json \<times> action list) option" where
  "check_from ct attempt [] rounds =
     (if attempt < MAX_RETRIES then None else Some (JNull, []))"
| "check_from ct attempt (s # subs) rounds =
     (if attempt < MAX_RETRIES then
        (case s of
           SubmitReplied check_id \<Rightarrow>
             if \<not> truthy check_id then
               (if attempt = MAX_RETRIES - 1
                then Some (JObj (error_dict ''No check ID received after retries''), [GetCheck ct])
                else after [GetCheck ct] (check_from ct (Suc attempt) subs rounds))
             else after [GetCheck ct]
                    (map_option (\<lambda>(d, t). (JObj d, t)) (get_check_results check_id 0 rounds))
         | SubmitFailed e \<Rightarrow>
             if attempt = MAX_RETRIES - 1
             then Some (JObj (error_dict (''API request failed after retries: '' @ e)),
                        [GetCheck ct])
             else after [GetCheck ct, Sleep 2] (check_from ct (Suc attempt) subs rounds))
      else Some (JNull, []))"

definition check_api ::
  "check_type \<Rightarrow> submit_outcome list \<Rightarrow> (rat \<times> poll_outcome) list \<Rightarrow>
     (json \<times> action list) option" where
  "check_api ct subs rounds = check_from ct 0 subs rounds"

text \<open>The time on the client's clock after the first \<open>n\<close> rounds of polling.\<close>

definition elapsed_after :: "nat \<Rightarrow> (rat \<times> poll_outcome) list \<Rightarrow> rat" where
  "elapsed_after n rounds = (\<Sum>r\<leftarrow>take n rounds. of_nat RESULT_WAIT_TIME + fst r)"

text \<open>A payload with at least one vantage point in which every entry is still null.\<close>

definition all_null :: "dict \<Rightarrow> bool" where
  "all_null payload = (payload \<noteq> [] \<and> list_all (\<lambda>(k, v). v = JNull) payload)"

section \<open>Facts about the table and the normalizer loop\<close>

lemma error_is_no_node: "map_of NODE_DETAILS ''error'' = None"
  by (simp add: NODE_DETAILS_def nd_def)

lemma known_node_not_error: "map_of NODE_DETAILS node = Some d \<Longrightarrow> node \<noteq> ''error''"
  using error_is_no_node by auto

lemma normalize_single:
  assumes "map_of NODE_DETAILS node = Some d"
  shows "normalize_payload f [(node, v)] =
           (case f v of Inl e \<Rightarrow> Inl e | Inr r \<Rightarrow> Inr [(region d, r)])"
  using assms known_node_not_error [OF assms]
  apply (simp add: normalize_payload_def)
  apply (cases "f v")
   apply simp_all
  done

text \<open>
  What the loop guarantees when no node raises: the keys of the result are the labels of
  the payload's known nodes, each once. Nodes outside the table leave no key.
\<close>

lemma dict_set_keys: "fst ` set (dict_set d k v) = insert k (fst ` set d)"
  by (induction d k v rule: dict_set.induct) auto

lemma dict_set_distinct: "distinct (map fst d) \<Longrightarrow> distinct (map fst (dict_set d k v))"
  by (induction d k v rule: dict_set.induct) (auto simp add: dict_set_keys)

lemma normalize_nodes_keys:
  assumes "normalize_nodes f payload results = Inr out"
  shows "fst ` set out = fst ` set results \<union>
           {region d |node d. node \<in> fst ` set payload \<and> map_of NODE_DETAILS node = Some d}"
  using assms
proof (induction payload arbitrary: results)
  case Nil
  then show ?case by simp
next
  case (Cons entry payload)
  obtain node node_result where entry: "entry = (node, node_result)" by (cases entry)
  show ?case
  proof (cases "map_of NODE_DETAILS node")
    case None
    then have "normalize_nodes f payload results = Inr out"
      using Cons.prems entry by simp
    from Cons.IH [OF this] None show ?thesis
      by (auto simp add: entry)
  next
    case (Some d)
    then obtain r where r: "f node_result = Inr r"
      and rest: "normalize_nodes f payload (dict_set results (region d) r) = Inr out"
      using Cons.prems entry by (auto split: sum.splits)
    from Cons.IH [OF rest] Some show ?thesis
      by (auto simp add: entry dict_set_keys)
  qed
qed

lemma normalize_nodes_distinct:
  assumes "normalize_nodes f payload results = Inr out" and "distinct (map fst results)"
  shows "distinct (map fst out)"
  using assms
proof (induction payload arbitrary: results)
  case Nil
  then show ?case by simp
next
  case (Cons entry payload)
  obtain node node_result where entry: "entry = (node, node_result)" by (cases entry)
  show ?case
  proof (cases "map_of NODE_DETAILS node")
    case None
    then show ?thesis using Cons entry by simp
  next
    case (Some d)
    then obtain r where rest: "normalize_nodes f payload (dict_set results (region d) r) = Inr out"
      using Cons.prems(1) entry by (auto split: sum.splits)
    from Cons.IH [OF rest dict_set_distinct [OF Cons.prems(2)]] show ?thesis .
  qed
qed

lemma result_keys_are_known_labels:
  assumes "map_of api_result ''error'' = None"
    and "normalize_payload f api_result = Inr out"
  shows "distinct (map fst out)"
    and "fst ` set out =
           {region d |node d. node \<in> fst ` set api_result \<and> map_of NODE_DETAILS node = Some d}"
proof -
  have run: "normalize_nodes f api_result [] = Inr out"
    using assms by (simp add: normalize_payload_def)
  show "distinct (map fst out)"
    using normalize_nodes_distinct [OF run] by simp
  show "fst ` set out =
           {region d |node d. node \<in> fst ` set api_result \<and> map_of NODE_DETAILS node = Some d}"
    using normalize_nodes_keys [OF run] by simp
qed

section \<open>The normalizers on the documented examples\<close>

text \<open>
  Claim C6. For a known vantage point whose raw entry starts with the attempts
  \<open>[["OK", 0.1, "1.2.3.4"], ["TIMEOUT"], ["OK", 0.3, "1.2.3.4"]]\<close>, \<open>ping\<close> stores under the
  node's label a record with success true, average latency 200 ms, minimum 100 ms, maximum
  300 ms, packet loss 100/3 per cent and the address 1.2.3.4: the latencies are those of
  the two attempts with status OK, in milliseconds.
\<close>

theorem ping_example:
  assumes "map_of NODE_DETAILS node = Some d"
  shows "ping [(node, JList (JList [
             JList [JStr ''OK'', JFloat (1/10), JStr ''1.2.3.4''],
             JList [JStr ''TIMEOUT''],
             JList [JStr ''OK'', JFloat (3/10), JStr ''1.2.3.4'']] # others))]
         = Inr [(region d, JObj [
             (''success'', JBool True),
             (''avg_latency'', JFloat 200),
             (''min_latency'', JFloat 100),
             (''max_latency'', JFloat 300),
             (''packet_loss'', JFloat (100 / 3)),
             (''ip'', JStr ''1.2.3.4'')])]"
  by (simp add: ping_def normalize_single [OF assms] ping_node_def ping_stats_def
      and_then_def py_min_def py_max_def)

theorem ping_example_witness:
  "map_of NODE_DETAILS ''us1.node.check-host.net''
     = Some \<lparr>country = ''USA'', city = ''Los Angeles'', continent = ''NA''\<rparr>
   \<and> ping [(''us1.node.check-host.net'', JList [JList [
             JList [JStr ''OK'', JFloat (1/10), JStr ''1.2.3.4''],
             JList [JStr ''TIMEOUT''],
             JList [JStr ''OK'', JFloat (3/10), JStr ''1.2.3.4'']]])]
         = Inr [(''USA (Los Angeles)'', JObj [
             (''success'', JBool True),
             (''avg_latency'', JFloat 200),
             (''min_latency'', JFloat 100),
             (''max_latency'', JFloat 300),
             (''packet_loss'', JFloat (100 / 3)),
             (''ip'', JStr ''1.2.3.4'')])]"
proof -
  have k: "map_of NODE_DETAILS ''us1.node.check-host.net''
     = Some \<lparr>country = ''USA'', city = ''Los Angeles'', continent = ''NA''\<rparr>"
    by (simp add: NODE_DETAILS_def nd_def)
  show ?thesis
    using k ping_example [OF k, of "[]"] by (simp add: region_def)
qed

text \<open>
  Claim C7. For a known vantage point whose raw entry starts with
  \<open>[1, 0.25, "OK", 200, "5.6.7.8"]\<close>, \<open>http_check\<close> stores under the node's label a record
  with success true, response time 250 ms, status code 200 and the address 5.6.7.8.
\<close>

theorem http_example:
  assumes "map_of NODE_DETAILS node = Some d"
  shows "http_check [(node, JList (
             JList [JInt 1, JFloat (1/4), JStr ''OK'', JInt 200, JStr ''5.6.7.8''] # others))]
         = Inr [(region d, JObj [
             (''success'', JBool True),
             (''status_code'', JInt 200),
             (''status_msg'', JStr ''OK''),
             (''response_time'', JFloat 250),
             (''ip'', JStr ''5.6.7.8'')])]"
  by (simp add: http_check_def normalize_single [OF assms] http_node_def and_then_def eq_one_def)

theorem http_example_witness:
  "map_of NODE_DETAILS ''de4.node.check-host.net''
     = Some \<lparr>country = ''Germany'', city = ''Frankfurt'', continent = ''EU''\<rparr>
   \<and> http_check [(''de4.node.check-host.net'', JList [
             JList [JInt 1, JFloat (1/4), JStr ''OK'', JInt 200, JStr ''5.6.7.8'']])]
         = Inr [(''Germany (Frankfurt)'', JObj [
             (''success'', JBool True),
             (''status_code'', JInt 200),
             (''status_msg'', JStr ''OK''),
             (''response_time'', JFloat 250),
             (''ip'', JStr ''5.6.7.8'')])]"
proof -
  have k: "map_of NODE_DETAILS ''de4.node.check-host.net''
     = Some \<lparr>country = ''Germany'', city = ''Frankfurt'', continent = ''EU''\<rparr>"
    by (simp add: NODE_DETAILS_def nd_def)
  show ?thesis
    using k http_example [OF k, of "[]"] by (simp add: region_def)
qed

text \<open>
  Claim C8, as amended. For a known vantage point whose raw entry starts with a list of
  more than three fields whose second field can be multiplied by 1000, \<open>http_check\<close>
  takes the status code from the fourth field (index 3) and the address from the fifth
  field (index 4) when the list has more than four fields, and reports \<open>None\<close> as the
  address otherwise.
\<close>

theorem http_ip_is_fifth_field:
  assumes "map_of NODE_DETAILS node = Some d"
    and "3 < length fs"
    and "mul1000 (fs ! 1) = Inr response_time"
  shows "http_check [(node, JList (JList fs # others))]
         = Inr [(region d, JObj [
             (''success'', JBool (eq_one (fs ! 0))),
             (''status_code'', fs ! 3),
             (''status_msg'', fs ! 2),
             (''response_time'', response_time),
             (''ip'', if 4 < length fs then fs ! 4 else JNull)])]"
  using assms(2,3)
  by (simp add: http_check_def normalize_single [OF assms(1)] http_node_def and_then_def)

theorem http_ip_is_fifth_field_witness:
  "http_check [(''nl1.node.check-host.net'', JList [
       JList [JInt 0, JFloat (7/100), JStr ''Connection timed out'', JNull]])]
   = Inr [(''Netherlands (Amsterdam)'', JObj [
       (''success'', JBool False),
       (''status_code'', JNull),
       (''status_msg'', JStr ''Connection timed out''),
       (''response_time'', JFloat 70),
       (''ip'', JNull)])]"
proof -
  have k: "map_of NODE_DETAILS ''nl1.node.check-host.net''
     = Some \<lparr>country = ''Netherlands'', city = ''Amsterdam'', continent = ''EU''\<rparr>"
    by (simp add: NODE_DETAILS_def nd_def)
  have len: "3 < length [JInt 0, JFloat (7/100), JStr ''Connection timed out'', JNull]"
    by simp
  have rt: "mul1000 ([JInt 0, JFloat (7/100), JStr ''Connection timed out'', JNull] ! 1)
     = Inr (JFloat 70)"
    by simp
  show ?thesis
    using http_ip_is_fifth_field [OF k len rt, of "[]"]
    by (simp add: region_def eq_one_def)
qed

text \<open>
  Claim C8, as stated, fails: in the entry \<open>[1, 0.13, "OK", "200", "94.242.206.94"]\<close>
  the fourth field is present and is the status code \<open>"200"\<close>, while the record's address
  is the fifth field.
\<close>

theorem http_ip_fourth_field_counterexample:
  "http_node (JList [JList [JInt 1, JFloat (13/100), JStr ''OK'', JStr ''200'',
                            JStr ''94.242.206.94'']])
     = Inr (JObj [
         (''success'', JBool True),
         (''status_code'', JStr ''200''),
         (''status_msg'', JStr ''OK''),
         (''response_time'', JFloat 130),
         (''ip'', JStr ''94.242.206.94'')])
   \<and> [JInt 1, JFloat (13/100), JStr ''OK'', JStr ''200'', JStr ''94.242.206.94''] ! 3
       = JStr ''200''
   \<and> JStr ''94.242.206.94'' \<noteq> JStr ''200''"
  by (simp add: http_node_def and_then_def eq_one_def)

text \<open>The two guards of each normalizer, on one raw value.\<close>

lemma no_data_nodes:
  assumes "\<forall>x xs. raw \<noteq> JList (x # xs)"
  shows "ping_node raw = Inr (failed ''No ping data'')"
    and "http_node raw = Inr (failed ''No HTTP data'')"
    and "tcp_node raw = Inr (failed ''No TCP data'')"
    and "udp_node raw = Inr (failed ''No UDP data'')"
    and "dns_node raw = Inr (failed ''No DNS data'')"
  using assms
  by (auto simp add: ping_node_def http_node_def tcp_node_def udp_node_def dns_node_def
      split: json.splits list.splits)

lemma invalid_nodes:
  shows "(\<forall>attempts. first = JList attempts \<longrightarrow> length attempts \<le> 1) \<Longrightarrow>
           ping_node (JList (first # others)) = Inr (failed ''Invalid ping response'')"
    and "(\<forall>fs. first = JList fs \<longrightarrow> length fs \<le> 3) \<Longrightarrow>
           http_node (JList (first # others)) = Inr (failed ''Invalid HTTP response'')"
    and "(\<forall>fs. first = JList fs \<longrightarrow> length fs \<le> 1) \<Longrightarrow>
           tcp_node (JList (first # others)) = Inr (failed ''Invalid TCP response'')"
    and "(\<forall>fs. first = JList fs \<longrightarrow> length fs \<le> 1) \<Longrightarrow>
           udp_node (JList (first # others)) = Inr (failed ''Invalid UDP response'')"
    and "(\<forall>records. first = JList records \<longrightarrow> records = []) \<Longrightarrow>
           dns_node (JList (first # others)) = Inr (failed ''Invalid DNS response'')"
  by (auto simp add: ping_node_def http_node_def tcp_node_def udp_node_def dns_node_def
      split: json.splits)

text \<open>
  Claim C9. For a known vantage point, a raw value that is not a non-empty list (null, an
  empty list, or any other value) gives exactly the record
  \<open>{success: False, error: "No <Type> data"}\<close> in each of the five normalizers; a
  non-empty list whose first element is not a list of sufficient length (more than one
  attempt for ping, more than three fields for HTTP, more than one field for TCP and UDP,
  at least one record for DNS) gives exactly
  \<open>{success: False, error: "Invalid <Type> response"}\<close>.
\<close>

theorem missing_and_short_entries:
  assumes "map_of NODE_DETAILS node = Some d"
  shows "((\<forall>x xs. raw \<noteq> JList (x # xs)) \<longrightarrow>
            ping [(node, raw)] = Inr [(region d, failed ''No ping data'')]
          \<and> http_check [(node, raw)] = Inr [(region d, failed ''No HTTP data'')]
          \<and> tcp_check [(node, raw)] = Inr [(region d, failed ''No TCP data'')]
          \<and> udp_check [(node, raw)] = Inr [(region d, failed ''No UDP data'')]
          \<and> dns_check [(node, raw)] = Inr [(region d, failed ''No DNS data'')])
       \<and> ((\<forall>attempts. first = JList attempts \<longrightarrow> length attempts \<le> 1) \<longrightarrow>
            ping [(node, JList (first # others))]
              = Inr [(region d, failed ''Invalid ping response'')]
          \<and> tcp_check [(node, JList (first # others))]
              = Inr [(region d, failed ''Invalid TCP response'')]
          \<and> udp_check [(node, JList (first # others))]
              = Inr [(region d, failed ''Invalid UDP response'')])
       \<and> ((\<forall>fs. first = JList fs \<longrightarrow> length fs \<le> 3) \<longrightarrow>
            http_check [(node, JList (first # others))]
              = Inr [(region d, failed ''Invalid HTTP response'')])
       \<and> ((\<forall>records. first = JList records \<longrightarrow> records = []) \<longrightarrow>
            dns_check [(node, JList (first # others))]
              = Inr [(region d, failed ''Invalid DNS response'')])"
  by (simp add: ping_def http_check_def tcp_check_def udp_check_def dns_check_def
      normalize_single [OF assms] no_data_nodes invalid_nodes)

theorem missing_and_short_entries_witness:
  "ping [(''jp1.node.check-host.net'', JNull)]
     = Inr [(''Japan (Tokyo)'', failed ''No ping data'')]
   \<and> dns_check [(''jp1.node.check-host.net'', JNull)]
     = Inr [(''Japan (Tokyo)'', failed ''No DNS data'')]
   \<and> ping [(''jp1.node.check-host.net'', JList [JList [JNull]])]
     = Inr [(''Japan (Tokyo)'', failed ''Invalid ping response'')]
   \<and> tcp_check [(''jp1.node.check-host.net'', JList [JList [JNull]])]
     = Inr [(''Japan (Tokyo)'', failed ''Invalid TCP response'')]
   \<and> http_check [(''jp1.node.check-host.net'', JList [JList [JNull]])]
     = Inr [(''Japan (Tokyo)'', failed ''Invalid HTTP response'')]"
proof -
  have k: "map_of NODE_DETAILS ''jp1.node.check-host.net''
     = Some \<lparr>country = ''Japan'', city = ''Tokyo'', continent = ''AS''\<rparr>"
    by (simp add: NODE_DETAILS_def nd_def)
  show ?thesis
    using missing_and_short_entries [OF k, of JNull "JList [JNull]" "[]"]
    by (simp add: region_def)
qed

section \<open>Where the normalizers leave the documented behaviour\<close>

text \<open>
  Claim C1 on the code. The table gives the two known nodes \<open>ru1\<close> and \<open>ru2\<close> the same
  label \<open>Russia (Moscow)\<close>, and the results are keyed by label: in each of the five
  normalizers a payload with both nodes yields one entry, the record of \<open>ru2\<close>, and the
  measurement of \<open>ru1\<close> is overwritten.
\<close>

theorem moscow_nodes_share_one_entry:
  "map_of NODE_DETAILS ''ru1.node.check-host.net'' \<noteq> None
   \<and> map_of NODE_DETAILS ''ru2.node.check-host.net'' \<noteq> None
   \<and> ping [(''ru1.node.check-host.net'', JList [JList [
               JList [JStr ''OK'', JFloat (1/10), JStr ''1.2.3.4''],
               JList [JStr ''OK'', JFloat (3/10), JStr ''1.2.3.4'']]]),
            (''ru2.node.check-host.net'', JNull)]
       = Inr [(''Russia (Moscow)'', failed ''No ping data'')]
   \<and> http_check [(''ru1.node.check-host.net'', JList [
               JList [JInt 1, JFloat (1/4), JStr ''OK'', JInt 200, JStr ''5.6.7.8'']]),
            (''ru2.node.check-host.net'', JNull)]
       = Inr [(''Russia (Moscow)'', failed ''No HTTP data'')]
   \<and> tcp_check [(''ru1.node.check-host.net'', JList [JList [JInt 1, JFloat (1/20)]]),
            (''ru2.node.check-host.net'', JNull)]
       = Inr [(''Russia (Moscow)'', failed ''No TCP data'')]
   \<and> udp_check [(''ru1.node.check-host.net'', JList [JList [JInt 1, JFloat (1/20)]]),
            (''ru2.node.check-host.net'', JNull)]
       = Inr [(''Russia (Moscow)'', failed ''No UDP data'')]
   \<and> dns_check [(''ru1.node.check-host.net'', JList [JList [
               JList [JFloat (1/20), JStr ''9.9.9.9'']]]),
            (''ru2.node.check-host.net'', JNull)]
       = Inr [(''Russia (Moscow)'', failed ''No DNS data'')]"
  by (simp add: NODE_DETAILS_def nd_def ping_def http_check_def tcp_check_def udp_check_def
      dns_check_def normalize_payload_def region_def ping_node_def http_node_def tcp_node_def
      udp_node_def dns_node_def ping_stats_def and_then_def py_min_def py_max_def eq_one_def)

text \<open>
  Claim C2 on the code. The guards of the normalizers test the first two levels of a raw
  entry only. In \<open>ping\<close>, an empty attempt record makes \<open>r[0]\<close> raise IndexError, and
  the exception leaves the whole call, so the record of the well-formed node \<open>us1\<close> is
  not produced either. In \<open>dns_check\<close>, an empty first record makes \<open>dns_result[0][0]\<close>
  raise IndexError.
\<close>

theorem bad_attempt_raises:
  "ping [(''us1.node.check-host.net'', JList [JList [
             JList [JStr ''OK'', JFloat (1/10), JStr ''1.2.3.4''],
             JList [JStr ''OK'', JFloat (3/10), JStr ''1.2.3.4'']]]),
         (''us2.node.check-host.net'', JList [JList [JList [], JList []]])]
     = Inl IndexError
   \<and> dns_check [(''us1.node.check-host.net'', JList [JList [JList []]])] = Inl IndexError"
  by (simp add: NODE_DETAILS_def nd_def ping_def dns_check_def normalize_payload_def region_def
      ping_node_def dns_node_def ping_stats_def and_then_def py_min_def py_max_def)

section \<open>The poll loop\<close>

text \<open>
  Claim C5. When no entry of the first poll's payload is null, \<open>_get_check_results\<close>
  returns that payload after one sleep of 10 seconds and one request: there is no second
  sleep and no second poll, whatever the later rounds would have brought.
\<close>

theorem first_poll_complete:
  assumes "\<forall>v \<in> snd ` set payload. v \<noteq> JNull"
  shows "get_check_results check_id 0 ((took, PollReplied payload) # rounds)
         = Some (payload, [Sleep 10, GetResult check_id])"
proof -
  have "all_responded payload"
    using assms by (auto simp add: all_responded_def list_all_iff)
  then show ?thesis
    by (simp add: MAX_WAIT_TIME_def RESULT_WAIT_TIME_def)
qed

theorem first_poll_complete_witness:
  "get_check_results (JStr ''8f3a'') 0
        [(1/2, PollReplied [(''us1.node.check-host.net'', JList [JList [JInt 1, JFloat (1/4)]]),
                            (''us2.node.check-host.net'', JList [])]),
         (1/2, PollFailed ''reset'')]
      = Some ([(''us1.node.check-host.net'', JList [JList [JInt 1, JFloat (1/4)]]),
               (''us2.node.check-host.net'', JList [])],
              [Sleep 10, GetResult (JStr ''8f3a'')])"
proof -
  have h: "\<forall>v \<in> snd ` set [(''us1.node.check-host.net'', JList [JList [JInt 1, JFloat (1/4)]]),
                     (''us2.node.check-host.net'', JList [])]. v \<noteq> JNull"
    by simp
  show ?thesis
    using first_poll_complete [OF h, of "JStr ''8f3a''" "1/2" "[(1/2, PollFailed ''reset'')]"]
    by simp
qed

text \<open>
  Claim C10. When the first poll delivers an empty mapping, the test that all nodes have
  responded holds with nothing to test: \<open>_get_check_results\<close> returns the empty payload
  after the first poll, and each of the five normalizers maps it to an empty result.
\<close>

theorem empty_payload_returns_at_once:
  "get_check_results check_id 0 ((took, PollReplied []) # rounds)
     = Some ([], [Sleep 10, GetResult check_id])
   \<and> ping [] = Inr [] \<and> http_check [] = Inr [] \<and> tcp_check [] = Inr []
   \<and> udp_check [] = Inr [] \<and> dns_check [] = Inr []"
  by (simp add: all_responded_def MAX_WAIT_TIME_def RESULT_WAIT_TIME_def
      ping_def http_check_def tcp_check_def udp_check_def dns_check_def normalize_payload_def)

text \<open>Facts about the clock and about rounds that bring an incomplete payload.\<close>

lemma all_null_not_responded: "all_null p \<Longrightarrow> \<not> all_responded p"
  by (cases p) (auto simp add: all_null_def all_responded_def)

lemma elapsed_after_0: "elapsed_after 0 rounds = 0"
  by (simp add: elapsed_after_def)

lemma elapsed_after_Suc:
  "elapsed_after (Suc n) ((took, outcome) # rounds)
     = of_nat RESULT_WAIT_TIME + took + elapsed_after n rounds"
  by (simp add: elapsed_after_def)

lemma elapsed_after_lower:
  assumes "\<forall>r \<in> set rounds. 0 \<le> fst r" and "m \<le> length rounds"
  shows "of_nat (RESULT_WAIT_TIME * m) \<le> elapsed_after m rounds"
  using assms
proof (induction rounds arbitrary: m)
  case Nil
  then show ?case by (simp add: elapsed_after_def)
next
  case (Cons r rounds)
  show ?case
  proof (cases m)
    case 0
    then show ?thesis by (simp add: elapsed_after_def)
  next
    case (Suc k)
    obtain took outcome where r: "r = (took, outcome)" by (cases r)
    have "of_nat (RESULT_WAIT_TIME * k) \<le> elapsed_after k rounds"
      using Cons Suc by simp
    moreover have "0 \<le> took" using Cons.prems r by simp
    ultimately show ?thesis
      unfolding Suc r elapsed_after_Suc by (simp add: algebra_simps)
  qed
qed

lemma poll_incomplete_from:
  assumes "\<forall>r \<in> set rounds. 0 \<le> fst r \<and> (\<exists>p. snd r = PollReplied p \<and> \<not> all_responded p)"
    and "of_nat MAX_WAIT_TIME \<le> elapsed + of_nat (RESULT_WAIT_TIME * length rounds)"
  shows "\<exists>n \<le> length rounds.
           get_check_results check_id elapsed rounds
             = Some (error_dict ''Timeout waiting for all nodes to respond'',
                     concat (replicate n [Sleep RESULT_WAIT_TIME, GetResult check_id]))
         \<and> of_nat MAX_WAIT_TIME \<le> elapsed + elapsed_after n rounds
         \<and> (\<forall>m < n. elapsed + elapsed_after m rounds < of_nat MAX_WAIT_TIME)"
  using assms
proof (induction rounds arbitrary: elapsed)
  case Nil
  then show ?case by (simp add: elapsed_after_0)
next
  case (Cons r rounds)
  obtain took outcome where r: "r = (took, outcome)" by (cases r)
  from Cons.prems(1) r obtain p where p: "outcome = PollReplied p" "\<not> all_responded p"
    and took: "0 \<le> took" by auto
  show ?case
  proof (cases "elapsed < of_nat MAX_WAIT_TIME")
    case False
    then have "get_check_results check_id elapsed (r # rounds)
        = Some (error_dict ''Timeout waiting for all nodes to respond'', [])"
      by (simp add: r)
    with False show ?thesis
      by (intro exI [of _ 0]) (simp add: elapsed_after_0)
  next
    case True
    let ?now = "elapsed + of_nat RESULT_WAIT_TIME + took"
    have budget: "of_nat MAX_WAIT_TIME \<le> ?now + of_nat (RESULT_WAIT_TIME * length rounds)"
      using Cons.prems(2) took by (simp add: algebra_simps)
    have rest: "\<forall>r \<in> set rounds. 0 \<le> fst r \<and> (\<exists>p. snd r = PollReplied p \<and> \<not> all_responded p)"
      using Cons.prems(1) by simp
    from Cons.IH [OF rest budget] obtain n where n: "n \<le> length rounds"
      and run: "get_check_results check_id ?now rounds
             = Some (error_dict ''Timeout waiting for all nodes to respond'',
                     concat (replicate n [Sleep RESULT_WAIT_TIME, GetResult check_id]))"
      and reach: "of_nat MAX_WAIT_TIME \<le> ?now + elapsed_after n rounds"
      and before: "\<forall>m < n. ?now + elapsed_after m rounds < of_nat MAX_WAIT_TIME"
      by blast
    have step: "get_check_results check_id elapsed (r # rounds)
        = Some (error_dict ''Timeout waiting for all nodes to respond'',
                concat (replicate (Suc n) [Sleep RESULT_WAIT_TIME, GetResult check_id]))"
      using True p run by (simp add: r after_def)
    have reach': "of_nat MAX_WAIT_TIME \<le> elapsed + elapsed_after (Suc n) (r # rounds)"
      using reach by (simp add: r elapsed_after_Suc algebra_simps)
    have before': "\<forall>m < Suc n. elapsed + elapsed_after m (r # rounds) < of_nat MAX_WAIT_TIME"
    proof (intro allI impI)
      fix m assume m: "m < Suc n"
      show "elapsed + elapsed_after m (r # rounds) < of_nat MAX_WAIT_TIME"
      proof (cases m)
        case 0
        then show ?thesis using True by (simp add: elapsed_after_0)
      next
        case (Suc k)
        then have "k < n" using m by simp
        then have "?now + elapsed_after k rounds < of_nat MAX_WAIT_TIME"
          using before by blast
        then show ?thesis by (simp add: Suc r elapsed_after_Suc algebra_simps)
      qed
    qed
    from n step reach' before' show ?thesis
      by (intro exI [of _ "Suc n"]) simp
  qed
qed

text \<open>
  Claim C4. When each of at least three rounds of polling delivers a non-empty payload in
  which every entry is null (and no round takes negative time), \<open>_get_check_results\<close>
  polls \<open>n\<close> times, between one and three, where \<open>n\<close> is the first number of rounds after
  which the elapsed time has reached 30 seconds; it then returns the error
  \<open>Timeout waiting for all nodes to respond\<close> and never a payload.
\<close>

theorem all_null_polls_until_ceiling:
  assumes "3 \<le> length rounds"
    and "\<forall>r \<in> set rounds. 0 \<le> fst r \<and> (\<exists>p. snd r = PollReplied p \<and> all_null p)"
  shows "\<exists>n. 1 \<le> n \<and> n \<le> 3
         \<and> get_check_results check_id 0 rounds
             = Some ([(''error'', JStr ''Timeout waiting for all nodes to respond'')],
                     concat (replicate n [Sleep 10, GetResult check_id]))
         \<and> 30 \<le> elapsed_after n rounds
         \<and> (\<forall>m < n. elapsed_after m rounds < 30)"
proof -
  have inc: "\<forall>r \<in> set rounds. 0 \<le> fst r \<and> (\<exists>p. snd r = PollReplied p \<and> \<not> all_responded p)"
    using assms(2) all_null_not_responded by blast
  have budget: "of_nat MAX_WAIT_TIME \<le> (0::rat) + of_nat (RESULT_WAIT_TIME * length rounds)"
  proof -
    have "MAX_WAIT_TIME \<le> RESULT_WAIT_TIME * length rounds"
      using assms(1) by (simp add: MAX_WAIT_TIME_def RESULT_WAIT_TIME_def)
    then have "(of_nat MAX_WAIT_TIME :: rat) \<le> of_nat (RESULT_WAIT_TIME * length rounds)"
      by (rule of_nat_mono)
    then show ?thesis by simp
  qed
  from poll_incomplete_from [OF inc budget, of check_id] obtain n where n: "n \<le> length rounds"
    and run: "get_check_results check_id 0 rounds
             = Some (error_dict ''Timeout waiting for all nodes to respond'',
                     concat (replicate n [Sleep RESULT_WAIT_TIME, GetResult check_id]))"
    and reach: "of_nat MAX_WAIT_TIME \<le> 0 + elapsed_after n rounds"
    and before: "\<forall>m < n. 0 + elapsed_after m rounds < of_nat MAX_WAIT_TIME"
    by blast
  have pos: "1 \<le> n"
  proof (rule ccontr)
    assume "\<not> 1 \<le> n"
    then have "n = 0" by simp
    with reach show False by (simp add: elapsed_after_0 MAX_WAIT_TIME_def)
  qed
  have le3: "n \<le> 3"
  proof (rule ccontr)
    assume "\<not> n \<le> 3"
    then have "3 < n" by simp
    then have "elapsed_after 3 rounds < of_nat MAX_WAIT_TIME" using before by simp
    moreover have "of_nat (RESULT_WAIT_TIME * 3) \<le> elapsed_after 3 rounds"
      using elapsed_after_lower [of rounds 3] assms by simp
    ultimately show False by (simp add: MAX_WAIT_TIME_def RESULT_WAIT_TIME_def)
  qed
  from pos le3 run reach before show ?thesis
    by (intro exI [of _ n]) (simp add: error_dict_def MAX_WAIT_TIME_def RESULT_WAIT_TIME_def)
qed

theorem all_null_polls_until_ceiling_witness:
  "get_check_results (JStr ''8f3a'') 0
     [(1/2, PollReplied [(''us1.node.check-host.net'', JNull), (''de4.node.check-host.net'', JNull)]),
      (0, PollReplied [(''us1.node.check-host.net'', JNull), (''de4.node.check-host.net'', JNull)]),
      (3, PollReplied [(''us1.node.check-host.net'', JNull), (''de4.node.check-host.net'', JNull)])]
   = Some ([(''error'', JStr ''Timeout waiting for all nodes to respond'')],
           [Sleep 10, GetResult (JStr ''8f3a''), Sleep 10, GetResult (JStr ''8f3a''),
            Sleep 10, GetResult (JStr ''8f3a'')])"
proof -
  let ?p = "[(''us1.node.check-host.net'', JNull), (''de4.node.check-host.net'', JNull)]"
  let ?rounds = "[(1/2, PollReplied ?p), (0, PollReplied ?p), (3, PollReplied ?p)] :: (rat \<times> poll_outcome) list"
  have len: "3 \<le> length ?rounds" by simp
  have nulls: "\<forall>r \<in> set ?rounds. 0 \<le> fst r \<and> (\<exists>p. snd r = PollReplied p \<and> all_null p)"
    by (simp add: all_null_def)
  show ?thesis
    using all_null_polls_until_ceiling [OF len nulls, of "JStr ''8f3a''"]
    by (simp add: MAX_WAIT_TIME_def RESULT_WAIT_TIME_def all_responded_def after_def
        error_dict_def)
qed

section \<open>Submission\<close>

text \<open>
  Three submissions that all fail, by a transport error or by a response without a handle:
  the client sends three requests, sleeps 2 seconds after a transport error of the first
  or second only, and reports the cause of the third failure.
\<close>

lemma three_failed_submissions:
  assumes "\<forall>s \<in> {s1, s2, s3}. \<forall>c. s = SubmitReplied c \<longrightarrow> \<not> truthy c"
  shows "check_api ct (s1 # s2 # s3 # subs) rounds =
           Some (JObj (error_dict (case s3 of
                    SubmitFailed e \<Rightarrow> ''API request failed after retries: '' @ e
                  | SubmitReplied c \<Rightarrow> ''No check ID received after retries'')),
                 GetCheck ct # (case s1 of SubmitFailed e \<Rightarrow> [Sleep 2] | SubmitReplied c \<Rightarrow> [])
                 @ GetCheck ct # (case s2 of SubmitFailed e \<Rightarrow> [Sleep 2] | SubmitReplied c \<Rightarrow> [])
                 @ [GetCheck ct])"
  using assms
  by (cases s1; cases s2; cases s3)
     (simp_all add: check_api_def MAX_RETRIES_def after_def)

text \<open>
  Claim C3 on the code. When each of the three submissions is answered without a job
  handle, the client sends three requests and returns the error
  \<open>No check ID received after retries\<close>, but it does not sleep between them: the sleep of
  2 seconds is in the exception branch only.
\<close>

theorem no_backoff_after_missing_handle:
  "check_api ct [SubmitReplied JNull, SubmitReplied JNull, SubmitReplied JNull] rounds
     = Some (JObj [(''error'', JStr ''No check ID received after retries'')],
             [GetCheck ct, GetCheck ct, GetCheck ct])"
  by (simp add: check_api_def MAX_RETRIES_def after_def error_dict_def)

end
